theory Spec2Isabelle
  imports Main
begin

section \<open>Client authentication (plenum/server/client\_authn.py)\<close>

subsection \<open>Python values\<close>

text \<open>
  The values that travel through the authenticator are dynamically typed: a field of
  the message, the \<open>identifier\<close> and \<open>signature\<close> arguments (default \<open>None\<close>), a
  verkey, a role. The model keeps the hashable scalars: \<open>None\<close>, integers and
  strings. Python's \<open>bool\<close> is a subclass of \<open>int\<close> (\<open>True == 1\<close>, same hash, same
  truth value), so \<open>PInt 1\<close> and \<open>PInt 0\<close> stand for \<open>True\<close> and \<open>False\<close>.
\<close>

datatype pyval = PNone | PInt int | PStr string

text \<open>Truth value testing, as \<open>not x\<close> and \<open>if x\<close> apply it.\<close>

fun truthy :: "pyval \<Rightarrow> bool" where
  "truthy PNone = False"
| "truthy (PInt n) = (n \<noteq> 0)"
| "truthy (PStr s) = (s \<noteq> [])"

text \<open>A byte sequence: every element is a byte value.\<close>

type_synonym bytes = "nat list"

text \<open>A message is a \<open>Dict\<close> from field names to values.\<close>

type_synonym msg = "string \<rightharpoonup> pyval"

text \<open>\<open>d.get(k)\<close>: the value, or \<open>None\<close> where the key is absent.\<close>

definition dict_get :: "('k \<rightharpoonup> pyval) \<Rightarrow> 'k \<Rightarrow> pyval" where
  "dict_get d k = (case d k of None \<Rightarrow> PNone | Some v \<Rightarrow> v)"

text \<open>
  Modelled from the spec: the field-name constants \<open>f.SIG.nm\<close>, \<open>f.IDENTIFIER.nm\<close>
  and \<open>f.REQ_ID.nm\<close> of \<open>plenum.common.types\<close>, which is imported but is not among
  the sources. The message schema names the fields \<open>signature\<close> and \<open>identifier\<close>,
  and the concrete scenario uses \<open>reqId\<close>.
\<close>

definition SIG_nm :: string where
  "SIG_nm = ''signature''"

definition IDENTIFIER_nm :: string where
  "IDENTIFIER_nm = ''identifier''"

definition REQ_ID_nm :: string where
  "REQ_ID_nm = ''reqId''"

subsection \<open>Exceptions\<close>

text \<open>
  The exceptions raised in \<open>client_authn.py\<close>, with the arguments they are built
  from. \<open>raise X from ex\<close> records \<open>ex\<close> as the cause of \<open>X\<close>: the cause is the
  argument of \<open>InvalidSignatureFormat\<close> and of \<open>CouldNotAuthenticate\<close>.
  \<open>PyException\<close> is every other exception class, by name (\<open>ValueError\<close>,
  \<open>TypeError\<close>, ...).
\<close>

datatype exc =
    MissingSignature pyval pyval
  | EmptySignature pyval pyval
  | MissingIdentifier pyval pyval
  | EmptyIdentifier pyval pyval
  | InvalidSignatureFormat exc
  | UnknownIdentifier pyval
  | InvalidSignature
  | CouldNotAuthenticate exc
  | PyException string

text \<open>
  Modelled from the spec: the class hierarchy of \<open>plenum.common.exceptions\<close>, which
  is imported but is not among the sources. The spec has the specific kinds
  propagate verbatim through \<open>except SigningException\<close>, and the docstring of
  \<open>authenticate\<close> promises its caller "an exception of type SigningException", so
  every exception class of the module that is raised here is a \<open>SigningException\<close>;
  no other exception is.
\<close>

fun isSigningException :: "exc \<Rightarrow> bool" where
  "isSigningException (PyException _) = False"
| "isSigningException _ = True"

subsection \<open>Computations that may raise and that thread the object's state\<close>

type_synonym ('a, 's) action = "'s \<Rightarrow> (exc + 'a) \<times> 's"

definition returnE :: "'a \<Rightarrow> ('a, 's) action" where
  "returnE x = (\<lambda>s. (Inr x, s))"

definition raiseE :: "exc \<Rightarrow> ('a, 's) action" where
  "raiseE e = (\<lambda>s. (Inl e, s))"

text \<open>A call that does not touch the state: it returns or raises.\<close>

definition liftE :: "exc + 'a \<Rightarrow> ('a, 's) action" where
  "liftE r = (\<lambda>s. (r, s))"

text \<open>Sequencing: an exception ends the block, with the state as it is then.\<close>

definition bindE :: "('a, 's) action \<Rightarrow> ('a \<Rightarrow> ('b, 's) action) \<Rightarrow> ('b, 's) action" where
  "bindE m f = (\<lambda>s. case m s of (Inl e, s') \<Rightarrow> (Inl e, s') | (Inr x, s') \<Rightarrow> f x s')"

text \<open>\<open>try: m except ... as e: h e\<close>.\<close>

definition catchE :: "('a, 's) action \<Rightarrow> (exc \<Rightarrow> ('a, 's) action) \<Rightarrow> ('a, 's) action" where
  "catchE m h = (\<lambda>s. case m s of (Inl e, s') \<Rightarrow> h e s' | (Inr x, s') \<Rightarrow> (Inr x, s'))"

subsection \<open>The collaborators of the authenticator\<close>

text \<open>
  \<open>base58.b58decode\<close>, \<open>plenum.common.signing.serializeForSig\<close> (reached through the
  method \<open>NaclAuthNr.serializeForSig\<close>, which only delegates to it) and
  \<open>plenum.common.verifier.DidVerifier\<close> with its method \<open>verify\<close> are called by
  \<open>authenticate\<close> and are not among the sources: they are parameters of the model.
  Each returns a value or raises. \<open>'vr\<close> is the type of a constructed verifier.
\<close>

record 'vr collaborators =
  b58decode :: "pyval \<Rightarrow> exc + bytes"
  serializeForSig :: "msg \<Rightarrow> exc + bytes"
  DidVerifier :: "pyval \<Rightarrow> pyval \<Rightarrow> exc + 'vr"
  verify :: "'vr \<Rightarrow> bytes \<Rightarrow> bytes \<Rightarrow> exc + bool"

subsection \<open>\<open>NaclAuthNr.authenticate\<close>\<close>

text \<open>
  Lines 73 to 81: the signature is the argument when that is truthy, and the
  message's signature field otherwise; \<open>msg[f.SIG.nm]\<close> raises \<open>KeyError\<close> on an
  absent field, which the inner handler turns into \<open>MissingSignature\<close>.
\<close>

definition resolveSignature :: "msg \<Rightarrow> pyval \<Rightarrow> exc + pyval" where
  "resolveSignature m signature =
     (if \<not> truthy signature then
        (case m SIG_nm of
           None \<Rightarrow> Inl (MissingSignature (dict_get m IDENTIFIER_nm) (dict_get m REQ_ID_nm))
         | Some signature' \<Rightarrow>
             if \<not> truthy signature'
             then Inl (EmptySignature (dict_get m IDENTIFIER_nm) (dict_get m REQ_ID_nm))
             else Inr signature')
      else Inr signature)"

text \<open>Lines 82 to 88: the same for the identifier.\<close>

definition resolveIdentifier :: "msg \<Rightarrow> pyval \<Rightarrow> exc + pyval" where
  "resolveIdentifier m identifier =
     (if \<not> truthy identifier then
        (case m IDENTIFIER_nm of
           None \<Rightarrow> Inl (MissingIdentifier identifier (dict_get m REQ_ID_nm))
         | Some identifier' \<Rightarrow>
             if \<not> truthy identifier'
             then Inl (EmptyIdentifier PNone (dict_get m REQ_ID_nm))
             else Inr identifier')
      else Inr identifier)"

text \<open>
  Lines 89 to 92: whatever exception the decoder raises becomes
  \<open>InvalidSignatureFormat\<close>, with that exception as its cause.
\<close>

definition decodeSignature :: "'vr collaborators \<Rightarrow> pyval \<Rightarrow> exc + bytes" where
  "decodeSignature env signature =
     (case b58decode env signature of
        Inl ex \<Rightarrow> Inl (InvalidSignatureFormat ex)
      | Inr sig \<Rightarrow> Inr sig)"

text \<open>
  Lines 99 to 102: a \<open>SigningException\<close> is raised again as it is, any other
  exception is replaced by \<open>CouldNotAuthenticate\<close> with that exception as its cause.
\<close>

definition reraised :: "exc \<Rightarrow> exc" where
  "reraised e = (if isSigningException e then e else CouldNotAuthenticate e)"

text \<open>
  The whole method. \<open>self_getVerkey\<close> is the abstract method \<open>getVerkey\<close> of the
  class, which a subclass supplies; it is the one call that receives the object.
\<close>

definition authenticate ::
  "'vr collaborators \<Rightarrow> (pyval \<Rightarrow> (pyval, 's) action) \<Rightarrow> msg \<Rightarrow> pyval \<Rightarrow> pyval
     \<Rightarrow> (pyval, 's) action" where
  "authenticate env self_getVerkey m identifier signature =
     catchE
       (bindE (liftE (resolveSignature m signature)) (\<lambda>signature.
        bindE (liftE (resolveIdentifier m identifier)) (\<lambda>identifier.
        bindE (liftE (decodeSignature env signature)) (\<lambda>sig.
        bindE (liftE (serializeForSig env m)) (\<lambda>ser.
        bindE (self_getVerkey identifier) (\<lambda>verkey.
        bindE (liftE (DidVerifier env verkey identifier)) (\<lambda>vr.
        bindE (liftE (verify env vr sig ser)) (\<lambda>isVerified.
        if \<not> isVerified then raiseE InvalidSignature
        else returnE identifier))))))))
       (\<lambda>e. raiseE (reraised e))"

subsection \<open>\<open>SimpleAuthNr\<close>\<close>

text \<open>
  The object holds \<open>clients\<close>, a dict from an identifier to the dict
  \<open>{"verkey": ..., "role": ...}\<close>; the inner dict is an association list, whose
  emptiness is its truth value. \<open>logged\<close> is what \<open>addClient\<close> has sent to
  \<open>logger.error\<close>.
\<close>

record SimpleAuthNr =
  clients :: "pyval \<rightharpoonup> (string \<times> pyval) list"
  logged :: "string list"

definition SimpleAuthNr_init :: SimpleAuthNr where
  "SimpleAuthNr_init = \<lparr>clients = Map.empty, logged = []\<rparr>"

definition addClient :: "pyval \<Rightarrow> pyval \<Rightarrow> pyval \<Rightarrow> (unit, SimpleAuthNr) action" where
  "addClient identifier verkey role = (\<lambda>self.
     let self1 = (if clients self identifier \<noteq> None
                  then self\<lparr>logged := logged self @ [''client already added'']\<rparr>
                  else self)
     in (Inr (),
         self1\<lparr>clients := (clients self1)(identifier \<mapsto>
                  [(''verkey'', verkey), (''role'', role)])\<rparr>))"

definition getVerkey :: "pyval \<Rightarrow> (pyval, SimpleAuthNr) action" where
  "getVerkey identifier = (\<lambda>self.
     case clients self identifier of
       None \<Rightarrow> (Inl (UnknownIdentifier identifier), self)
     | Some nym \<Rightarrow>
         if nym = [] then (Inl (UnknownIdentifier identifier), self)
         else (Inr (dict_get (map_of nym) ''verkey''), self))"

text \<open>\<open>authenticate\<close> as \<open>SimpleAuthNr\<close> inherits it.\<close>

definition SimpleAuthNr_authenticate ::
  "'vr collaborators \<Rightarrow> msg \<Rightarrow> pyval \<Rightarrow> pyval \<Rightarrow> (pyval, SimpleAuthNr) action" where
  "SimpleAuthNr_authenticate env = authenticate env getVerkey"

text \<open>
  The registry after a sequence of registrations on a new object: each element is
  the \<open>(identifier, verkey, role)\<close> of one call of \<open>addClient\<close>, in order.
\<close>

fun addClients :: "(pyval \<times> pyval \<times> pyval) list \<Rightarrow> SimpleAuthNr \<Rightarrow> SimpleAuthNr" where
  "addClients [] self = self"
| "addClients ((identifier, verkey, role) # calls) self =
     addClients calls (snd (addClient identifier verkey role self))"

subsection \<open>The serializer, from the spec\<close>

text \<open>
  Modelled from the spec: \<open>plenum.common.signing.serializeForSig\<close>, which
  \<open>NaclAuthNr.serializeForSig\<close> delegates to and which is not among the sources.
  "Canonicalization never includes the signature field, and is a pure,
  deterministic function of the remaining message content": the bytes are a function
  \<open>canonical\<close> of the message without its signature field. The byte encoding
  \<open>canonical\<close> itself is left open; it may raise.
\<close>

definition signing_serializeForSig :: "(msg \<Rightarrow> exc + bytes) \<Rightarrow> msg \<Rightarrow> exc + bytes" where
  "signing_serializeForSig canonical m = canonical (m(SIG_nm := None))"

subsection \<open>Concrete collaborators\<close>

text \<open>
  A model of the third-party function \<open>base58.b58decode\<close> on the Bitcoin alphabet:
  leading \<open>1\<close>s are zero bytes, the rest is a number in base 58, most significant
  digit first, written out in base 256. \<open>alphabet.index\<close> raises \<open>ValueError\<close> on a
  character outside the alphabet; a value that is not a string has no such digits
  at all.
\<close>

definition b58_alphabet :: string where
  "b58_alphabet = ''123456789ABCDEFGHJKLMNPQRSTUVWXYZabcdefghijkmnopqrstuvwxyz''"

fun str_index :: "string \<Rightarrow> char \<Rightarrow> nat option" where
  "str_index [] c = None"
| "str_index (x # xs) c = (if x = c then Some 0 else map_option Suc (str_index xs c))"

fun b58decode_int :: "string \<Rightarrow> nat \<Rightarrow> nat option" where
  "b58decode_int [] decimal = Some decimal"
| "b58decode_int (c # cs) decimal =
     (case str_index b58_alphabet c of
        None \<Rightarrow> None
      | Some d \<Rightarrow> b58decode_int cs (decimal * 58 + d))"

fun int_to_bytes :: "nat \<Rightarrow> bytes" where
  "int_to_bytes acc = (if 0 < acc then int_to_bytes (acc div 256) @ [acc mod 256] else [])"

definition base58_b58decode :: "pyval \<Rightarrow> exc + bytes" where
  "base58_b58decode v =
     (case v of
        PStr s \<Rightarrow>
          (let stripped = dropWhile (\<lambda>c. c = CHR ''1'') s
           in case b58decode_int stripped 0 of
                None \<Rightarrow> Inl (PyException ''ValueError'')
              | Some acc \<Rightarrow> Inr (replicate (length s - length stripped) 0 @ int_to_bytes acc))
      | _ \<Rightarrow> Inl (PyException ''TypeError''))"

text \<open>
  An instance of the collaborators, to run the model on concrete calls. The decoder
  is the one above. The serializer encodes the request id alone (one byte), and
  raises on a request id that is a string. The verifier stands in for the
  cryptographic primitive: it is built from the decoded verkey and accepts the
  signature that is the key followed by the signed bytes.
\<close>

definition exampleSerialize :: "msg \<Rightarrow> exc + bytes" where
  "exampleSerialize m =
     (case m REQ_ID_nm of
        Some (PInt n) \<Rightarrow> Inr [nat (n mod 256)]
      | Some (PStr s) \<Rightarrow> Inl (PyException ''TypeError'')
      | _ \<Rightarrow> Inr [])"

definition exampleCollaborators :: "bytes collaborators" where
  "exampleCollaborators =
     \<lparr> b58decode = base58_b58decode,
       serializeForSig = exampleSerialize,
       DidVerifier = (\<lambda>verkey identifier. base58_b58decode verkey),
       verify = (\<lambda>vr sig ser. Inr (sig = vr @ ser)) \<rparr>"

text \<open>
  A request in the shape of the spec's concrete scenario, with the signature string
  as a parameter, and a registry holding the one client \<open>Did1\<close>.
\<close>

definition exampleRequest :: "string \<Rightarrow> msg" where
  "exampleRequest signature =
     [IDENTIFIER_nm \<mapsto> PStr ''Did1'', REQ_ID_nm \<mapsto> PInt 1, SIG_nm \<mapsto> PStr signature]"

definition exampleRegistry :: SimpleAuthNr where
  "exampleRegistry = addClients [(PStr ''Did1'', PStr ''3'', PNone)] SimpleAuthNr_init"

section \<open>Auxiliary facts\<close>

lemma reraised_signing [simp]: "isSigningException e \<Longrightarrow> reraised e = e"
  by (simp add: reraised_def)

lemma reraised_other [simp]: "\<not> isSigningException e \<Longrightarrow> reraised e = CouldNotAuthenticate e"
  by (simp add: reraised_def)

lemma resolveSignature_signing: "resolveSignature m signature = Inl e \<Longrightarrow> isSigningException e"
  by (auto simp: resolveSignature_def split: if_splits option.splits)

lemma resolveIdentifier_signing: "resolveIdentifier m identifier = Inl e \<Longrightarrow> isSigningException e"
  by (auto simp: resolveIdentifier_def split: if_splits option.splits)

text \<open>The method, one step after the other, with the handlers applied.\<close>

lemma authenticate_cases:
  "authenticate env gv m identifier signature st =
     (case resolveSignature m signature of Inl e \<Rightarrow> (Inl e, st) | Inr s \<Rightarrow>
     (case resolveIdentifier m identifier of Inl e \<Rightarrow> (Inl e, st) | Inr i \<Rightarrow>
     (case b58decode env s of Inl ex \<Rightarrow> (Inl (InvalidSignatureFormat ex), st) | Inr sig \<Rightarrow>
     (case serializeForSig env m of Inl ex \<Rightarrow> (Inl (reraised ex), st) | Inr ser \<Rightarrow>
     (case gv i st of (Inl ex, st1) \<Rightarrow> (Inl (reraised ex), st1) | (Inr vk, st1) \<Rightarrow>
     (case DidVerifier env vk i of Inl ex \<Rightarrow> (Inl (reraised ex), st1) | Inr vr \<Rightarrow>
     (case verify env vr sig ser of Inl ex \<Rightarrow> (Inl (reraised ex), st1) | Inr ok \<Rightarrow>
        if ok then (Inr i, st1) else (Inl InvalidSignature, st1))))))))"
  by (auto simp: authenticate_def bindE_def catchE_def liftE_def returnE_def raiseE_def
        decodeSignature_def
      dest: resolveSignature_signing resolveIdentifier_signing
      split: sum.splits prod.splits)

lemma getVerkey_state [simp]: "snd (getVerkey identifier self) = self"
  by (simp add: getVerkey_def split: option.splits)

lemma clients_addClient [simp]:
  "clients (snd (addClient identifier verkey role self)) =
     (clients self)(identifier \<mapsto> [(''verkey'', verkey), (''role'', role)])"
  by (simp add: addClient_def Let_def)

lemma clients_addClients_other:
  "identifier \<notin> fst ` set calls \<Longrightarrow> clients (addClients calls self) identifier = clients self identifier"
  by (induction calls self rule: addClients.induct) auto

lemma getVerkey_registered:
  "clients self identifier = Some [(''verkey'', verkey), (''role'', role)] \<Longrightarrow>
     getVerkey identifier self = (Inr verkey, self)"
  by (simp add: getVerkey_def dict_get_def)

lemma getVerkey_unregistered:
  "clients self identifier = None \<Longrightarrow> getVerkey identifier self = (Inl (UnknownIdentifier identifier), self)"
  by (simp add: getVerkey_def)

lemma getVerkey_addClients:
  "fst (getVerkey identifier (addClients calls self)) =
     (case filter (\<lambda>c. fst c = identifier) calls of
        [] \<Rightarrow> fst (getVerkey identifier self)
      | c # cs \<Rightarrow> Inr (fst (snd (last (c # cs)))))"
proof (induction calls self rule: addClients.induct)
  case (1 self)
  show ?case by simp
next
  case (2 i vk r calls self)
  show ?case
  proof (cases "i = identifier")
    case True
    then have "fst (getVerkey identifier (snd (addClient i vk r self))) = Inr vk"
      by (simp add: getVerkey_registered)
    with True 2 show ?thesis
      by (simp split: list.splits)
  next
    case False
    then have "fst (getVerkey identifier (snd (addClient i vk r self))) = fst (getVerkey identifier self)"
      by (simp add: getVerkey_def split: option.splits)
    with False 2 show ?thesis
      by (simp split: list.splits)
  qed
qed

lemma getVerkey_same: "getVerkey identifier self = (r, self') \<Longrightarrow> self' = self"
  by (auto simp: getVerkey_def split: option.splits if_splits)

lemma getVerkey_init [simp]:
  "getVerkey identifier SimpleAuthNr_init = (Inl (UnknownIdentifier identifier), SimpleAuthNr_init)"
  by (simp add: getVerkey_def SimpleAuthNr_init_def)

lemma filter_registrations_empty:
  "(filter (\<lambda>c. fst c = identifier) calls = []) = (identifier \<notin> fst ` set calls)"
  by (auto simp: filter_empty_conv)

text \<open>The concrete collaborators, request and registry, evaluated.\<close>

lemma example_decode [simp]:
  "base58_b58decode (PStr ''9r'') = Inr [2, 1]"
  "base58_b58decode (PStr ''9s'') = Inr [2, 2]"
  "base58_b58decode (PStr ''3'') = Inr [2]"
  "base58_b58decode (PStr ''0'') = Inl (PyException ''ValueError'')"
  by (simp_all add: base58_b58decode_def b58_alphabet_def)

lemma exampleRequest_fields [simp]:
  "exampleRequest sg SIG_nm = Some (PStr sg)"
  "exampleRequest sg IDENTIFIER_nm = Some (PStr ''Did1'')"
  "exampleRequest sg REQ_ID_nm = Some (PInt 1)"
  by (simp_all add: exampleRequest_def SIG_nm_def IDENTIFIER_nm_def REQ_ID_nm_def)

lemma exampleRegistry_Did1 [simp]:
  "getVerkey (PStr ''Did1'') exampleRegistry = (Inr (PStr ''3''), exampleRegistry)"
  by (simp add: exampleRegistry_def getVerkey_registered)

lemma exampleCollaborators_simps [simp]:
  "b58decode exampleCollaborators = base58_b58decode"
  "serializeForSig exampleCollaborators = exampleSerialize"
  "DidVerifier exampleCollaborators vk i = base58_b58decode vk"
  "verify exampleCollaborators vr sig ser = Inr (sig = vr @ ser)"
  by (simp_all add: exampleCollaborators_def)

lemma exampleSerialize_request [simp]: "exampleSerialize (exampleRequest sg) = Inr [1]"
  by (simp add: exampleSerialize_def)

section \<open>The claims\<close>

text \<open>
  C1. The bytes used as the signed payload are the serialization of the message
  without its signature field. \<open>authenticate\<close> hands the message to the serializer
  as it received it (line 93), and the serializer leaves the signature field out:
  for a message that has a signature field, in a call that gets as far as the
  verifier, what happens is decided by the serialization of the message without
  that field, which is what the verifier's \<open>verify\<close> receives next to the decoded
  signature.
\<close>

theorem authenticate_signed_payload:
  assumes "m SIG_nm = Some v"
    and "resolveSignature m signature = Inr s"
    and "resolveIdentifier m identifier = Inr i"
    and "b58decode env s = Inr sig"
    and "gv i st = (Inr vk, st1)"
    and "DidVerifier env vk i = Inr vr"
  shows "authenticate (env\<lparr>serializeForSig := signing_serializeForSig canonical\<rparr>)
           gv m identifier signature st =
         (case signing_serializeForSig canonical (m(SIG_nm := None)) of
            Inl ex \<Rightarrow> (Inl (reraised ex), st)
          | Inr ser \<Rightarrow>
              (case verify env vr sig ser of
                 Inl ex \<Rightarrow> (Inl (reraised ex), st1)
               | Inr ok \<Rightarrow> if ok then (Inr i, st1) else (Inl InvalidSignature, st1)))"
  using assms
  by (simp add: authenticate_cases signing_serializeForSig_def split: sum.splits)

theorem authenticate_signed_payload_witness:
  "exampleRequest ''9r'' SIG_nm = Some (PStr ''9r'') \<and>
   resolveSignature (exampleRequest ''9r'') PNone = Inr (PStr ''9r'') \<and>
   resolveIdentifier (exampleRequest ''9r'') PNone = Inr (PStr ''Did1'') \<and>
   b58decode exampleCollaborators (PStr ''9r'') = Inr [2, 1] \<and>
   getVerkey (PStr ''Did1'') exampleRegistry = (Inr (PStr ''3''), exampleRegistry) \<and>
   DidVerifier exampleCollaborators (PStr ''3'') (PStr ''Did1'') = Inr [2] \<and>
   signing_serializeForSig exampleSerialize ((exampleRequest ''9r'')(SIG_nm := None)) = Inr [1] \<and>
   authenticate (exampleCollaborators\<lparr>serializeForSig := signing_serializeForSig exampleSerialize\<rparr>)
     getVerkey (exampleRequest ''9r'') PNone PNone exampleRegistry
   = (Inr (PStr ''Did1''), exampleRegistry)"
proof -
  have h1: "exampleRequest ''9r'' SIG_nm = Some (PStr ''9r'')"
    by (simp add: exampleRequest_def)
  have h2: "resolveSignature (exampleRequest ''9r'') PNone = Inr (PStr ''9r'')"
    by (simp add: resolveSignature_def exampleRequest_def)
  have h3: "resolveIdentifier (exampleRequest ''9r'') PNone = Inr (PStr ''Did1'')"
    by (simp add: resolveIdentifier_def exampleRequest_def SIG_nm_def IDENTIFIER_nm_def REQ_ID_nm_def)
  have h4: "b58decode exampleCollaborators (PStr ''9r'') = Inr [2, 1]"
    by (simp add: exampleCollaborators_def base58_b58decode_def b58_alphabet_def)
  have h5: "getVerkey (PStr ''Did1'') exampleRegistry = (Inr (PStr ''3''), exampleRegistry)"
    by (simp add: exampleRegistry_def getVerkey_registered)
  have h6: "DidVerifier exampleCollaborators (PStr ''3'') (PStr ''Did1'') = Inr [2]"
    by (simp add: exampleCollaborators_def base58_b58decode_def b58_alphabet_def)
  have h7: "signing_serializeForSig exampleSerialize ((exampleRequest ''9r'')(SIG_nm := None)) = Inr [1]"
    by (simp add: signing_serializeForSig_def exampleSerialize_def exampleRequest_def
          SIG_nm_def REQ_ID_nm_def)
  have h8: "verify exampleCollaborators [2] [2, 1] [1] = Inr True"
    by (simp add: exampleCollaborators_def)
  show ?thesis
    using authenticate_signed_payload [where gv = getVerkey and st = exampleRegistry
        and canonical = exampleSerialize, OF h1 h2 h3 h4 h5 h6]
      h1 h2 h3 h4 h5 h6 h7 h8
    by simp
qed

text \<open>
  C2. The signature and the identifier are resolved by the same two-tier rule, and
  a failed resolution is the failure of the call, with exactly the matching
  exception. With no truthy signature argument, a message without a signature
  field fails with \<open>MissingSignature\<close> and a message whose signature field is
  falsy fails with \<open>EmptySignature\<close>. The identifier is resolved after the
  signature (lines 82 to 88 follow lines 73 to 81): once the signature is resolved,
  with no truthy identifier argument, a message without an identifier field fails
  with \<open>MissingIdentifier\<close> and a message whose identifier field is falsy fails with
  \<open>EmptyIdentifier\<close>.
\<close>

theorem authenticate_resolution_failures:
  "(\<not> truthy signature \<and> m SIG_nm = None \<longrightarrow>
      authenticate env gv m identifier signature st =
        (Inl (MissingSignature (dict_get m IDENTIFIER_nm) (dict_get m REQ_ID_nm)), st)) \<and>
   (\<not> truthy signature \<and> m SIG_nm = Some v \<and> \<not> truthy v \<longrightarrow>
      authenticate env gv m identifier signature st =
        (Inl (EmptySignature (dict_get m IDENTIFIER_nm) (dict_get m REQ_ID_nm)), st)) \<and>
   ((truthy signature \<or> (\<exists>v'. m SIG_nm = Some v' \<and> truthy v')) \<and>
    \<not> truthy identifier \<and> m IDENTIFIER_nm = None \<longrightarrow>
      authenticate env gv m identifier signature st =
        (Inl (MissingIdentifier identifier (dict_get m REQ_ID_nm)), st)) \<and>
   ((truthy signature \<or> (\<exists>v'. m SIG_nm = Some v' \<and> truthy v')) \<and>
    \<not> truthy identifier \<and> m IDENTIFIER_nm = Some w \<and> \<not> truthy w \<longrightarrow>
      authenticate env gv m identifier signature st =
        (Inl (EmptyIdentifier PNone (dict_get m REQ_ID_nm)), st))"
  by (auto simp: authenticate_cases resolveSignature_def resolveIdentifier_def)

theorem authenticate_resolution_failures_witness:
  "authenticate exampleCollaborators getVerkey Map.empty PNone PNone exampleRegistry =
     (Inl (MissingSignature PNone PNone), exampleRegistry) \<and>
   authenticate exampleCollaborators getVerkey (exampleRequest '''') PNone PNone exampleRegistry =
     (Inl (EmptySignature (PStr ''Did1'') (PInt 1)), exampleRegistry) \<and>
   authenticate exampleCollaborators getVerkey [REQ_ID_nm \<mapsto> PInt 1, SIG_nm \<mapsto> PStr ''9r'']
       PNone PNone exampleRegistry =
     (Inl (MissingIdentifier PNone (PInt 1)), exampleRegistry) \<and>
   authenticate exampleCollaborators getVerkey [IDENTIFIER_nm \<mapsto> PInt 0] (PStr '''') (PStr ''9r'')
       exampleRegistry =
     (Inl (EmptyIdentifier PNone PNone), exampleRegistry)"
  using
    authenticate_resolution_failures [of PNone Map.empty exampleCollaborators getVerkey PNone
      exampleRegistry]
    authenticate_resolution_failures [of PNone "exampleRequest ''''" exampleCollaborators getVerkey
      PNone exampleRegistry "PStr ''''"]
    authenticate_resolution_failures [of PNone "[REQ_ID_nm \<mapsto> PInt 1, SIG_nm \<mapsto> PStr ''9r'']"
      exampleCollaborators getVerkey PNone exampleRegistry]
    authenticate_resolution_failures [of "PStr ''9r''" "[IDENTIFIER_nm \<mapsto> PInt 0]"
      exampleCollaborators getVerkey "PStr ''''" exampleRegistry _ "PInt 0"]
  by (simp add: exampleRequest_def dict_get_def SIG_nm_def IDENTIFIER_nm_def REQ_ID_nm_def)

text \<open>
  C3, as the code has it. What leaves \<open>authenticate\<close> is decided by the place where
  the exception arises. A failed resolution of the signature or of the identifier
  leaves unchanged. Every exception raised by the base58 decoder is replaced by
  \<open>InvalidSignatureFormat\<close>, with that exception as its cause (lines 89 to 92); it
  never becomes \<open>CouldNotAuthenticate\<close>. An exception raised by the serializer, by
  \<open>getVerkey\<close>, by the construction of the verifier or by \<open>verify\<close> leaves unchanged
  when it is a \<open>SigningException\<close>, and is replaced by \<open>CouldNotAuthenticate\<close>, with
  that exception as its cause, otherwise. A negative answer of the verifier leaves
  as \<open>InvalidSignature\<close>. So \<open>CouldNotAuthenticate\<close> never replaces one of the
  specific kinds, and every exception that leaves the call is a
  \<open>SigningException\<close>.
\<close>

theorem authenticate_failure_propagation:
  "(resolveSignature m signature = Inl e \<longrightarrow>
      authenticate env gv m identifier signature st = (Inl e, st)) \<and>
   (resolveSignature m signature = Inr s \<longrightarrow>
     (resolveIdentifier m identifier = Inl e \<longrightarrow>
        authenticate env gv m identifier signature st = (Inl e, st)) \<and>
     (resolveIdentifier m identifier = Inr i \<longrightarrow>
       (b58decode env s = Inl ex \<longrightarrow>
          authenticate env gv m identifier signature st =
            (Inl (InvalidSignatureFormat ex), st)) \<and>
       (b58decode env s = Inr sig \<longrightarrow>
         (serializeForSig env m = Inl ex \<longrightarrow>
            authenticate env gv m identifier signature st =
              (Inl (if isSigningException ex then ex else CouldNotAuthenticate ex), st)) \<and>
         (serializeForSig env m = Inr ser \<longrightarrow>
           (gv i st = (Inl ex, st1) \<longrightarrow>
              authenticate env gv m identifier signature st =
                (Inl (if isSigningException ex then ex else CouldNotAuthenticate ex), st1)) \<and>
           (gv i st = (Inr vk, st1) \<longrightarrow>
             (DidVerifier env vk i = Inl ex \<longrightarrow>
                authenticate env gv m identifier signature st =
                  (Inl (if isSigningException ex then ex else CouldNotAuthenticate ex), st1)) \<and>
             (DidVerifier env vk i = Inr vr \<longrightarrow>
               (verify env vr sig ser = Inl ex \<longrightarrow>
                  authenticate env gv m identifier signature st =
                    (Inl (if isSigningException ex then ex else CouldNotAuthenticate ex), st1)) \<and>
               (verify env vr sig ser = Inr False \<longrightarrow>
                  authenticate env gv m identifier signature st =
                    (Inl InvalidSignature, st1)))))))) \<and>
   (fst (authenticate env gv m identifier signature st) = Inl e' \<longrightarrow> isSigningException e')"
proof -
  have last: "isSigningException e'"
    if "fst (authenticate env gv m identifier signature st) = Inl e'"
    using that
    by (auto simp: authenticate_cases reraised_def
        dest: resolveSignature_signing resolveIdentifier_signing
        split: sum.splits prod.splits if_splits)
  have sites: "resolveSignature m signature = Inl e \<longrightarrow>
      authenticate env gv m identifier signature st = (Inl e, st)"
    "resolveSignature m signature = Inr s \<longrightarrow> resolveIdentifier m identifier = Inl e \<longrightarrow>
      authenticate env gv m identifier signature st = (Inl e, st)"
    "resolveSignature m signature = Inr s \<longrightarrow> resolveIdentifier m identifier = Inr i \<longrightarrow>
      b58decode env s = Inl ex \<longrightarrow>
      authenticate env gv m identifier signature st = (Inl (InvalidSignatureFormat ex), st)"
    "resolveSignature m signature = Inr s \<longrightarrow> resolveIdentifier m identifier = Inr i \<longrightarrow>
      b58decode env s = Inr sig \<longrightarrow> serializeForSig env m = Inl ex \<longrightarrow>
      authenticate env gv m identifier signature st = (Inl (reraised ex), st)"
    "resolveSignature m signature = Inr s \<longrightarrow> resolveIdentifier m identifier = Inr i \<longrightarrow>
      b58decode env s = Inr sig \<longrightarrow> serializeForSig env m = Inr ser \<longrightarrow>
      gv i st = (Inl ex, st1) \<longrightarrow>
      authenticate env gv m identifier signature st = (Inl (reraised ex), st1)"
    "resolveSignature m signature = Inr s \<longrightarrow> resolveIdentifier m identifier = Inr i \<longrightarrow>
      b58decode env s = Inr sig \<longrightarrow> serializeForSig env m = Inr ser \<longrightarrow>
      gv i st = (Inr vk, st1) \<longrightarrow> DidVerifier env vk i = Inl ex \<longrightarrow>
      authenticate env gv m identifier signature st = (Inl (reraised ex), st1)"
    "resolveSignature m signature = Inr s \<longrightarrow> resolveIdentifier m identifier = Inr i \<longrightarrow>
      b58decode env s = Inr sig \<longrightarrow> serializeForSig env m = Inr ser \<longrightarrow>
      gv i st = (Inr vk, st1) \<longrightarrow> DidVerifier env vk i = Inr vr \<longrightarrow>
      verify env vr sig ser = Inl ex \<longrightarrow>
      authenticate env gv m identifier signature st = (Inl (reraised ex), st1)"
    "resolveSignature m signature = Inr s \<longrightarrow> resolveIdentifier m identifier = Inr i \<longrightarrow>
      b58decode env s = Inr sig \<longrightarrow> serializeForSig env m = Inr ser \<longrightarrow>
      gv i st = (Inr vk, st1) \<longrightarrow> DidVerifier env vk i = Inr vr \<longrightarrow>
      verify env vr sig ser = Inr False \<longrightarrow>
      authenticate env gv m identifier signature st = (Inl InvalidSignature, st1)"
    by (simp_all add: authenticate_cases)
  have r: "reraised ex = (if isSigningException ex then ex else CouldNotAuthenticate ex)"
    by (simp add: reraised_def)
  from sites last show ?thesis
    unfolding r by blast
qed

theorem authenticate_failure_propagation_witness:
  "authenticate exampleCollaborators getVerkey Map.empty PNone PNone exampleRegistry =
     (Inl (MissingSignature PNone PNone), exampleRegistry) \<and>
   authenticate exampleCollaborators getVerkey (exampleRequest ''0'') PNone PNone exampleRegistry =
     (Inl (InvalidSignatureFormat (PyException ''ValueError'')), exampleRegistry) \<and>
   authenticate exampleCollaborators getVerkey [REQ_ID_nm \<mapsto> PStr ''x''] (PStr ''Did1'')
       (PStr ''9r'') exampleRegistry =
     (Inl (CouldNotAuthenticate (PyException ''TypeError'')), exampleRegistry) \<and>
   authenticate exampleCollaborators getVerkey (exampleRequest ''9r'') (PStr ''Did2'') PNone
       exampleRegistry =
     (Inl (UnknownIdentifier (PStr ''Did2'')), exampleRegistry) \<and>
   authenticate exampleCollaborators getVerkey (exampleRequest ''9s'') PNone PNone exampleRegistry =
     (Inl InvalidSignature, exampleRegistry)"
proof -
  have unknown: "getVerkey (PStr ''Did2'') exampleRegistry =
      (Inl (UnknownIdentifier (PStr ''Did2'')), exampleRegistry)"
    by (simp add: exampleRegistry_def getVerkey_unregistered SimpleAuthNr_init_def)
  have ser: "exampleSerialize [REQ_ID_nm \<mapsto> PStr ''x''] = Inl (PyException ''TypeError'')"
    by (simp add: exampleSerialize_def)
  have sigs: "resolveSignature Map.empty PNone = Inl (MissingSignature PNone PNone)"
    "resolveSignature (exampleRequest ''0'') PNone = Inr (PStr ''0'')"
    "resolveSignature [REQ_ID_nm \<mapsto> PStr ''x''] (PStr ''9r'') = Inr (PStr ''9r'')"
    "resolveSignature (exampleRequest ''9r'') PNone = Inr (PStr ''9r'')"
    "resolveSignature (exampleRequest ''9s'') PNone = Inr (PStr ''9s'')"
    by (simp_all add: resolveSignature_def dict_get_def)
  have ids: "resolveIdentifier (exampleRequest ''0'') PNone = Inr (PStr ''Did1'')"
    "resolveIdentifier [REQ_ID_nm \<mapsto> PStr ''x''] (PStr ''Did1'') = Inr (PStr ''Did1'')"
    "resolveIdentifier (exampleRequest ''9r'') (PStr ''Did2'') = Inr (PStr ''Did2'')"
    "resolveIdentifier (exampleRequest ''9s'') PNone = Inr (PStr ''Did1'')"
    by (simp_all add: resolveIdentifier_def)
  note inst =
    authenticate_failure_propagation [of Map.empty PNone "MissingSignature PNone PNone"
      exampleCollaborators getVerkey PNone exampleRegistry]
    authenticate_failure_propagation [of "exampleRequest ''0''" PNone _
      exampleCollaborators getVerkey PNone exampleRegistry "PStr ''0''" "PStr ''Did1''"
      "PyException ''ValueError''"]
    authenticate_failure_propagation [of "[REQ_ID_nm \<mapsto> PStr ''x'']" "PStr ''9r''" _
      exampleCollaborators getVerkey "PStr ''Did1''" exampleRegistry "PStr ''9r''" "PStr ''Did1''"
      "PyException ''TypeError''" "[2, 1]"]
    authenticate_failure_propagation [of "exampleRequest ''9r''" PNone _
      exampleCollaborators getVerkey "PStr ''Did2''" exampleRegistry "PStr ''9r''" "PStr ''Did2''"
      "UnknownIdentifier (PStr ''Did2'')" "[2, 1]" "[1]" exampleRegistry]
    authenticate_failure_propagation [of "exampleRequest ''9s''" PNone _
      exampleCollaborators getVerkey PNone exampleRegistry "PStr ''9s''" "PStr ''Did1''"
      _ "[2, 2]" "[1]" exampleRegistry "PStr ''3''" "[2]"]
  show ?thesis
    using inst by (simp add: sigs ids unknown ser)
qed

text \<open>
  C3 as the spec states it has the exceptions of the decoding wrapped into
  \<open>CouldNotAuthenticate\<close> as well. That fails: here the decoder raises
  \<open>ValueError\<close>, which is none of the specific kinds, and the call fails with
  \<open>InvalidSignatureFormat\<close>.
\<close>

theorem decoding_exception_not_CouldNotAuthenticate:
  "resolveSignature (exampleRequest ''0'') PNone = Inr (PStr ''0'') \<and>
   b58decode exampleCollaborators (PStr ''0'') = Inl (PyException ''ValueError'') \<and>
   \<not> isSigningException (PyException ''ValueError'') \<and>
   authenticate exampleCollaborators getVerkey (exampleRequest ''0'') PNone PNone exampleRegistry =
     (Inl (InvalidSignatureFormat (PyException ''ValueError'')), exampleRegistry) \<and>
   authenticate exampleCollaborators getVerkey (exampleRequest ''0'') PNone PNone exampleRegistry \<noteq>
     (Inl (CouldNotAuthenticate (PyException ''ValueError'')), exampleRegistry)"
  by (simp add: authenticate_cases resolveSignature_def resolveIdentifier_def)

text \<open>
  C4, as the code has it. For an identifier that no call of \<open>addClient\<close> has
  registered, \<open>getVerkey\<close> raises \<open>UnknownIdentifier\<close>, and a call of \<open>authenticate\<close>
  that resolves to such an identifier, whose signature decodes and whose message
  serializes, fails with that \<open>UnknownIdentifier\<close> itself, not wrapped.
  The key is looked up at line 94, after the signature is decoded (line 90) and
  the message serialized (line 93).
\<close>

theorem unregistered_identifier_unknown:
  assumes "identifier \<notin> fst ` set calls"
  shows "getVerkey identifier (addClients calls SimpleAuthNr_init) =
           (Inl (UnknownIdentifier identifier), addClients calls SimpleAuthNr_init) \<and>
         (resolveSignature m signature = Inr s \<and>
          resolveIdentifier m identifier_arg = Inr identifier \<and>
          b58decode env s = Inr sig \<and> serializeForSig env m = Inr ser \<longrightarrow>
            SimpleAuthNr_authenticate env m identifier_arg signature
                (addClients calls SimpleAuthNr_init) =
              (Inl (UnknownIdentifier identifier), addClients calls SimpleAuthNr_init))"
proof -
  from assms have "clients (addClients calls SimpleAuthNr_init) identifier = None"
    by (simp add: clients_addClients_other SimpleAuthNr_init_def)
  then have unknown: "getVerkey identifier (addClients calls SimpleAuthNr_init) =
      (Inl (UnknownIdentifier identifier), addClients calls SimpleAuthNr_init)"
    by (rule getVerkey_unregistered)
  then show ?thesis
    by (simp add: SimpleAuthNr_authenticate_def authenticate_cases)
qed

theorem unregistered_identifier_unknown_witness:
  "PStr ''Did2'' \<notin> fst ` set [(PStr ''Did1'', PStr ''3'', PNone)] \<and>
   getVerkey (PStr ''Did2'') (addClients [(PStr ''Did1'', PStr ''3'', PNone)] SimpleAuthNr_init) =
     (Inl (UnknownIdentifier (PStr ''Did2'')),
      addClients [(PStr ''Did1'', PStr ''3'', PNone)] SimpleAuthNr_init) \<and>
   SimpleAuthNr_authenticate exampleCollaborators
       [IDENTIFIER_nm \<mapsto> PStr ''Did2'', SIG_nm \<mapsto> PStr ''9r''] PNone PNone
       (addClients [(PStr ''Did1'', PStr ''3'', PNone)] SimpleAuthNr_init) =
     (Inl (UnknownIdentifier (PStr ''Did2'')),
      addClients [(PStr ''Did1'', PStr ''3'', PNone)] SimpleAuthNr_init)"
proof -
  have h: "PStr ''Did2'' \<notin> fst ` set [(PStr ''Did1'', PStr ''3'', PNone)]"
    by simp
  have ser: "exampleSerialize [IDENTIFIER_nm \<mapsto> PStr ''Did2'', SIG_nm \<mapsto> PStr ''9r''] = Inr []"
    by (simp add: exampleSerialize_def SIG_nm_def IDENTIFIER_nm_def REQ_ID_nm_def)
  show ?thesis
    using unregistered_identifier_unknown [OF h,
        of "[IDENTIFIER_nm \<mapsto> PStr ''Did2'', SIG_nm \<mapsto> PStr ''9r'']" PNone "PStr ''9r''" PNone
        exampleCollaborators "[2, 1]" "[]"] h ser
    by (simp add: resolveSignature_def resolveIdentifier_def SIG_nm_def IDENTIFIER_nm_def)
qed

text \<open>
  C4 as the spec states it, for every call that resolves to an unregistered
  identifier, fails: this call resolves to an identifier never registered, its
  signature does not decode, and it fails with \<open>InvalidSignatureFormat\<close>, whose
  cause is the decoder's \<open>ValueError\<close>.
\<close>

theorem unregistered_identifier_other_failure:
  "PStr ''Did2'' \<notin> fst ` set [(PStr ''Did1'', PStr ''3'', PNone)] \<and>
   resolveIdentifier [IDENTIFIER_nm \<mapsto> PStr ''Did2'', SIG_nm \<mapsto> PStr ''0''] PNone =
     Inr (PStr ''Did2'') \<and>
   SimpleAuthNr_authenticate exampleCollaborators
       [IDENTIFIER_nm \<mapsto> PStr ''Did2'', SIG_nm \<mapsto> PStr ''0''] PNone PNone
       (addClients [(PStr ''Did1'', PStr ''3'', PNone)] SimpleAuthNr_init) =
     (Inl (InvalidSignatureFormat (PyException ''ValueError'')),
      addClients [(PStr ''Did1'', PStr ''3'', PNone)] SimpleAuthNr_init)"
  by (simp add: SimpleAuthNr_authenticate_def authenticate_cases resolveSignature_def
        resolveIdentifier_def SIG_nm_def IDENTIFIER_nm_def)

text \<open>
  C5. When the decoding of the resolved signature raises, the call fails with
  \<open>InvalidSignatureFormat\<close>. The decoder runs at line 90, once the signature and
  the identifier are resolved; whatever it raises is the cause of the
  \<open>InvalidSignatureFormat\<close> that leaves the call.
\<close>

theorem authenticate_invalid_signature_format:
  assumes "resolveSignature m signature = Inr s"
    and "resolveIdentifier m identifier = Inr i"
    and "b58decode env s = Inl ex"
  shows "authenticate env gv m identifier signature st = (Inl (InvalidSignatureFormat ex), st)"
  using assms by (simp add: authenticate_cases)

theorem authenticate_invalid_signature_format_witness:
  "resolveSignature (exampleRequest ''0'') PNone = Inr (PStr ''0'') \<and>
   resolveIdentifier (exampleRequest ''0'') PNone = Inr (PStr ''Did1'') \<and>
   b58decode exampleCollaborators (PStr ''0'') = Inl (PyException ''ValueError'') \<and>
   authenticate exampleCollaborators getVerkey (exampleRequest ''0'') PNone PNone exampleRegistry =
     (Inl (InvalidSignatureFormat (PyException ''ValueError'')), exampleRegistry)"
proof -
  have h1: "resolveSignature (exampleRequest ''0'') PNone = Inr (PStr ''0'')"
    by (simp add: resolveSignature_def)
  have h2: "resolveIdentifier (exampleRequest ''0'') PNone = Inr (PStr ''Did1'')"
    by (simp add: resolveIdentifier_def)
  have h3: "b58decode exampleCollaborators (PStr ''0'') = Inl (PyException ''ValueError'')"
    by simp
  show ?thesis
    using authenticate_invalid_signature_format [OF h1 h2 h3, of getVerkey exampleRegistry] h1 h2 h3
    by simp
qed

text \<open>
  C6. For a call that passes field resolution, decoding, serialization and key
  resolution, and whose verifier is built and gives its answer: a negative answer
  makes the call fail with \<open>InvalidSignature\<close>, a positive answer makes it return
  the resolved identifier.
\<close>

theorem authenticate_verifier_result:
  assumes "resolveSignature m signature = Inr s"
    and "resolveIdentifier m identifier = Inr i"
    and "b58decode env s = Inr sig"
    and "serializeForSig env m = Inr ser"
    and "gv i st = (Inr vk, st1)"
    and "DidVerifier env vk i = Inr vr"
    and "verify env vr sig ser = Inr isVerified"
  shows "(\<not> isVerified \<longrightarrow>
            authenticate env gv m identifier signature st = (Inl InvalidSignature, st1)) \<and>
         (isVerified \<longrightarrow>
            authenticate env gv m identifier signature st = (Inr i, st1))"
  using assms by (simp add: authenticate_cases)

theorem authenticate_verifier_result_witness:
  "verify exampleCollaborators [2] [2, 1] [1] = Inr True \<and>
   authenticate exampleCollaborators getVerkey (exampleRequest ''9r'') PNone PNone exampleRegistry =
     (Inr (PStr ''Did1''), exampleRegistry) \<and>
   verify exampleCollaborators [2] [2, 2] [1] = Inr False \<and>
   authenticate exampleCollaborators getVerkey (exampleRequest ''9s'') PNone PNone exampleRegistry =
     (Inl InvalidSignature, exampleRegistry)"
proof -
  have s1: "resolveSignature (exampleRequest ''9r'') PNone = Inr (PStr ''9r'')"
    and s2: "resolveSignature (exampleRequest ''9s'') PNone = Inr (PStr ''9s'')"
    by (simp_all add: resolveSignature_def)
  have i1: "resolveIdentifier (exampleRequest ''9r'') PNone = Inr (PStr ''Did1'')"
    and i2: "resolveIdentifier (exampleRequest ''9s'') PNone = Inr (PStr ''Did1'')"
    by (simp_all add: resolveIdentifier_def)
  have d1: "b58decode exampleCollaborators (PStr ''9r'') = Inr [2, 1]"
    and d2: "b58decode exampleCollaborators (PStr ''9s'') = Inr [2, 2]"
    by simp_all
  have p1: "serializeForSig exampleCollaborators (exampleRequest ''9r'') = Inr [1]"
    and p2: "serializeForSig exampleCollaborators (exampleRequest ''9s'') = Inr [1]"
    by simp_all
  have k: "getVerkey (PStr ''Did1'') exampleRegistry = (Inr (PStr ''3''), exampleRegistry)"
    by simp
  have c: "DidVerifier exampleCollaborators (PStr ''3'') (PStr ''Did1'') = Inr [2]"
    by simp
  have v1: "verify exampleCollaborators [2] [2, 1] [1] = Inr True"
    and v2: "verify exampleCollaborators [2] [2, 2] [1] = Inr False"
    by simp_all
  show ?thesis
    using authenticate_verifier_result [where gv = getVerkey and st = exampleRegistry,
        OF s1 i1 d1 p1 k c v1]
      authenticate_verifier_result [where gv = getVerkey and st = exampleRegistry,
        OF s2 i2 d2 p2 k c v2]
      v1 v2
    by simp
qed

text \<open>
  C7. \<open>addClient\<close> returns for every identifier, verkey and role. Afterwards the
  registry is the one before with the identifier mapped to the new record,
  whatever it held for that identifier, and \<open>getVerkey\<close> returns the verkey just
  given. Registering an identifier that is already there only adds one line to the
  error log.
\<close>

theorem addClient_upsert:
  "fst (addClient identifier verkey role self) = Inr () \<and>
   clients (snd (addClient identifier verkey role self)) =
     (clients self)(identifier \<mapsto> [(''verkey'', verkey), (''role'', role)]) \<and>
   getVerkey identifier (snd (addClient identifier verkey role self)) =
     (Inr verkey, snd (addClient identifier verkey role self)) \<and>
   logged (snd (addClient identifier verkey role self)) =
     (if clients self identifier = None then logged self
      else logged self @ [''client already added''])"
  by (simp add: getVerkey_registered) (simp add: addClient_def)

theorem addClient_upsert_witness:
  "fst (addClient (PStr ''Did1'') (PStr ''4'') PNone exampleRegistry) = Inr () \<and>
   clients exampleRegistry (PStr ''Did1'') = Some [(''verkey'', PStr ''3''), (''role'', PNone)] \<and>
   clients (snd (addClient (PStr ''Did1'') (PStr ''4'') PNone exampleRegistry)) (PStr ''Did1'') =
     Some [(''verkey'', PStr ''4''), (''role'', PNone)] \<and>
   fst (getVerkey (PStr ''Did1'') (snd (addClient (PStr ''Did1'') (PStr ''4'') PNone exampleRegistry)))
     = Inr (PStr ''4'') \<and>
   logged (snd (addClient (PStr ''Did1'') (PStr ''4'') PNone exampleRegistry)) =
     [''client already added'']"
  using addClient_upsert [of "PStr ''Did1''" "PStr ''4''" PNone exampleRegistry]
  by (simp add: exampleRegistry_def) (simp add: addClient_def SimpleAuthNr_init_def)

text \<open>
  C8. \<open>authenticate\<close> leaves the object as it found it, the \<open>clients\<close> mapping in
  particular, for every message, every pair of arguments, every registry and all
  collaborators, whether the call returns or raises.
\<close>

theorem authenticate_registry_unchanged:
  "snd (SimpleAuthNr_authenticate env m identifier signature self) = self \<and>
   clients (snd (SimpleAuthNr_authenticate env m identifier signature self)) = clients self"
proof -
  have "snd (SimpleAuthNr_authenticate env m identifier signature self) = self"
    unfolding SimpleAuthNr_authenticate_def authenticate_cases
    by (auto split: sum.splits prod.splits dest: getVerkey_same)
  then show ?thesis
    by simp
qed

theorem authenticate_registry_unchanged_witness:
  "snd (SimpleAuthNr_authenticate exampleCollaborators (exampleRequest ''9r'') PNone PNone
          exampleRegistry) = exampleRegistry \<and>
   snd (SimpleAuthNr_authenticate exampleCollaborators (exampleRequest ''9s'') PNone PNone
          exampleRegistry) = exampleRegistry \<and>
   fst (SimpleAuthNr_authenticate exampleCollaborators (exampleRequest ''9r'') PNone PNone
          exampleRegistry) = Inr (PStr ''Did1'') \<and>
   fst (SimpleAuthNr_authenticate exampleCollaborators (exampleRequest ''9s'') PNone PNone
          exampleRegistry) = Inl InvalidSignature"
  using
    authenticate_registry_unchanged [of exampleCollaborators "exampleRequest ''9r''" PNone PNone
      exampleRegistry]
    authenticate_registry_unchanged [of exampleCollaborators "exampleRequest ''9s''" PNone PNone
      exampleRegistry]
  by (simp add: SimpleAuthNr_authenticate_def authenticate_cases resolveSignature_def
        resolveIdentifier_def)

text \<open>
  C9. A truthy \<open>signature\<close> or \<open>identifier\<close> argument is the resolved value, whatever
  the message holds. With both supplied, the call is the rest of the method run on
  the arguments themselves: the decoder is applied to the supplied signature, the
  key is looked up and the verifier built for the supplied identifier, and the
  message enters through its serialization alone. A falsy argument does not
  override: the call is the one with the message's own field as the argument, when
  that field is truthy. On success the call returns the resolved identifier, which
  is the argument when that is truthy and the message's identifier field
  otherwise.
\<close>

theorem authenticate_argument_override:
  "(truthy signature \<longrightarrow> resolveSignature m signature = Inr signature) \<and>
   (truthy identifier \<longrightarrow> resolveIdentifier m identifier = Inr identifier) \<and>
   (truthy signature \<and> truthy identifier \<longrightarrow>
      authenticate env gv m identifier signature st =
        (case b58decode env signature of
           Inl ex \<Rightarrow> (Inl (InvalidSignatureFormat ex), st)
         | Inr sig \<Rightarrow>
         (case serializeForSig env m of
            Inl ex \<Rightarrow> (Inl (reraised ex), st)
          | Inr ser \<Rightarrow>
          (case gv identifier st of
             (Inl ex, st1) \<Rightarrow> (Inl (reraised ex), st1)
           | (Inr vk, st1) \<Rightarrow>
           (case DidVerifier env vk identifier of
              Inl ex \<Rightarrow> (Inl (reraised ex), st1)
            | Inr vr \<Rightarrow>
            (case verify env vr sig ser of
               Inl ex \<Rightarrow> (Inl (reraised ex), st1)
             | Inr isVerified \<Rightarrow>
                 if isVerified then (Inr identifier, st1)
                 else (Inl InvalidSignature, st1))))))) \<and>
   (truthy signature \<and> truthy identifier \<and> serializeForSig env m = serializeForSig env m' \<longrightarrow>
      authenticate env gv m identifier signature st =
      authenticate env gv m' identifier signature st) \<and>
   (\<not> truthy signature \<and> m SIG_nm = Some v \<and> truthy v \<longrightarrow>
      authenticate env gv m identifier signature st = authenticate env gv m identifier v st) \<and>
   (\<not> truthy identifier \<and> m IDENTIFIER_nm = Some w \<and> truthy w \<longrightarrow>
      authenticate env gv m identifier signature st = authenticate env gv m w signature st) \<and>
   (authenticate env gv m identifier signature st = (Inr r, st') \<longrightarrow>
      resolveIdentifier m identifier = Inr r \<and>
      (if truthy identifier then r = identifier else m IDENTIFIER_nm = Some r))"
proof -
  have success: "resolveIdentifier m identifier = Inr r"
    if "authenticate env gv m identifier signature st = (Inr r, st')"
    using that
    by (auto simp: authenticate_cases split: sum.splits prod.splits if_splits)
  have resolved: "if truthy identifier then r = identifier else m IDENTIFIER_nm = Some r"
    if "resolveIdentifier m identifier = Inr r"
    using that
    by (auto simp: resolveIdentifier_def split: option.splits if_splits)
  have sig_arg: "truthy signature \<longrightarrow> resolveSignature m signature = Inr signature"
    by (simp add: resolveSignature_def)
  have id_arg: "truthy identifier \<longrightarrow> resolveIdentifier m identifier = Inr identifier"
    by (simp add: resolveIdentifier_def)
  have used: "truthy signature \<and> truthy identifier \<longrightarrow>
      authenticate env gv m identifier signature st =
        (case b58decode env signature of
           Inl ex \<Rightarrow> (Inl (InvalidSignatureFormat ex), st)
         | Inr sig \<Rightarrow>
         (case serializeForSig env m of
            Inl ex \<Rightarrow> (Inl (reraised ex), st)
          | Inr ser \<Rightarrow>
          (case gv identifier st of
             (Inl ex, st1) \<Rightarrow> (Inl (reraised ex), st1)
           | (Inr vk, st1) \<Rightarrow>
           (case DidVerifier env vk identifier of
              Inl ex \<Rightarrow> (Inl (reraised ex), st1)
            | Inr vr \<Rightarrow>
            (case verify env vr sig ser of
               Inl ex \<Rightarrow> (Inl (reraised ex), st1)
             | Inr isVerified \<Rightarrow>
                 if isVerified then (Inr identifier, st1)
                 else (Inl InvalidSignature, st1))))))"
    by (simp add: authenticate_cases resolveSignature_def resolveIdentifier_def)
  have both: "truthy signature \<and> truthy identifier \<and>
      serializeForSig env m = serializeForSig env m' \<longrightarrow>
      authenticate env gv m identifier signature st =
      authenticate env gv m' identifier signature st"
    by (auto simp: authenticate_cases resolveSignature_def resolveIdentifier_def
        split: sum.splits)
  have sig_field: "\<not> truthy signature \<and> m SIG_nm = Some v \<and> truthy v \<longrightarrow>
      authenticate env gv m identifier signature st = authenticate env gv m identifier v st"
  proof (intro impI, elim conjE)
    assume "\<not> truthy signature" "m SIG_nm = Some v" "truthy v"
    then have "resolveSignature m signature = resolveSignature m v"
      by (simp add: resolveSignature_def)
    then show "authenticate env gv m identifier signature st =
        authenticate env gv m identifier v st"
      by (simp add: authenticate_cases split: sum.splits)
  qed
  have id_field: "\<not> truthy identifier \<and> m IDENTIFIER_nm = Some w \<and> truthy w \<longrightarrow>
      authenticate env gv m identifier signature st = authenticate env gv m w signature st"
  proof (intro impI, elim conjE)
    assume "\<not> truthy identifier" "m IDENTIFIER_nm = Some w" "truthy w"
    then have "resolveIdentifier m identifier = resolveIdentifier m w"
      by (simp add: resolveIdentifier_def)
    then show "authenticate env gv m identifier signature st =
        authenticate env gv m w signature st"
      by (simp add: authenticate_cases split: sum.splits)
  qed
  from sig_arg id_arg used both sig_field id_field success resolved show ?thesis
    by blast
qed

theorem authenticate_argument_override_witness:
  "authenticate exampleCollaborators getVerkey (exampleRequest ''0'') (PStr ''Did1'') (PStr ''9r'')
     exampleRegistry = (Inr (PStr ''Did1''), exampleRegistry) \<and>
   authenticate exampleCollaborators getVerkey (exampleRequest ''9r'') (PStr ''Did1'') (PStr ''9s'')
     exampleRegistry = (Inl InvalidSignature, exampleRegistry) \<and>
   authenticate exampleCollaborators getVerkey (exampleRequest ''9r'') (PStr ''Did1'') (PStr ''0'')
     exampleRegistry = (Inl (InvalidSignatureFormat (PyException ''ValueError'')), exampleRegistry) \<and>
   authenticate exampleCollaborators getVerkey (exampleRequest ''9r'') (PStr ''Did2'') (PStr ''9r'')
     exampleRegistry = (Inl (UnknownIdentifier (PStr ''Did2'')), exampleRegistry) \<and>
   authenticate exampleCollaborators getVerkey (exampleRequest ''0'') (PStr ''Did1'') (PStr ''9r'')
     exampleRegistry =
   authenticate exampleCollaborators getVerkey [REQ_ID_nm \<mapsto> PInt 1] (PStr ''Did1'') (PStr ''9r'')
     exampleRegistry \<and>
   authenticate exampleCollaborators getVerkey (exampleRequest ''9s'') (PStr ''Did1'') (PInt 0)
     exampleRegistry = (Inl InvalidSignature, exampleRegistry) \<and>
   authenticate exampleCollaborators getVerkey (exampleRequest ''9r'') (PStr '''') (PStr ''9r'')
     exampleRegistry = (Inr (PStr ''Did1''), exampleRegistry) \<and>
   resolveIdentifier (exampleRequest ''9r'') (PStr '''') = Inr (PStr ''Did1'')"
proof -
  have unknown: "getVerkey (PStr ''Did2'') exampleRegistry =
      (Inl (UnknownIdentifier (PStr ''Did2'')), exampleRegistry)"
    by (simp add: exampleRegistry_def getVerkey_unregistered SimpleAuthNr_init_def)
  have ser: "serializeForSig exampleCollaborators (exampleRequest ''0'') =
      serializeForSig exampleCollaborators [REQ_ID_nm \<mapsto> PInt 1]"
    by (simp add: exampleSerialize_def)
  have a: "authenticate exampleCollaborators getVerkey (exampleRequest ''0'') (PStr ''Did1'')
      (PStr ''9r'') exampleRegistry = (Inr (PStr ''Did1''), exampleRegistry)"
    using authenticate_argument_override [of "PStr ''9r''" "exampleRequest ''0''" "PStr ''Did1''"
      exampleCollaborators getVerkey exampleRegistry]
    by simp
  have b: "authenticate exampleCollaborators getVerkey (exampleRequest ''9r'') (PStr ''Did1'')
      (PStr ''9s'') exampleRegistry = (Inl InvalidSignature, exampleRegistry)"
    using authenticate_argument_override [of "PStr ''9s''" "exampleRequest ''9r''" "PStr ''Did1''"
      exampleCollaborators getVerkey exampleRegistry]
    by simp
  have c: "authenticate exampleCollaborators getVerkey (exampleRequest ''9r'') (PStr ''Did1'')
      (PStr ''0'') exampleRegistry =
      (Inl (InvalidSignatureFormat (PyException ''ValueError'')), exampleRegistry)"
    using authenticate_argument_override [of "PStr ''0''" "exampleRequest ''9r''" "PStr ''Did1''"
      exampleCollaborators getVerkey exampleRegistry]
    by simp
  have d: "authenticate exampleCollaborators getVerkey (exampleRequest ''9r'') (PStr ''Did2'')
      (PStr ''9r'') exampleRegistry = (Inl (UnknownIdentifier (PStr ''Did2'')), exampleRegistry)"
    using authenticate_argument_override [of "PStr ''9r''" "exampleRequest ''9r''" "PStr ''Did2''"
      exampleCollaborators getVerkey exampleRegistry] unknown
    by simp
  have e: "authenticate exampleCollaborators getVerkey (exampleRequest ''0'') (PStr ''Did1'')
      (PStr ''9r'') exampleRegistry =
      authenticate exampleCollaborators getVerkey [REQ_ID_nm \<mapsto> PInt 1] (PStr ''Did1'')
      (PStr ''9r'') exampleRegistry"
  proof -
    have "truthy (PStr ''9r'') \<and> truthy (PStr ''Did1'') \<and>
        serializeForSig exampleCollaborators (exampleRequest ''0'') =
        serializeForSig exampleCollaborators [REQ_ID_nm \<mapsto> PInt 1]"
      using ser by simp
    with authenticate_argument_override [of "PStr ''9r''" "exampleRequest ''0''" "PStr ''Did1''"
      exampleCollaborators getVerkey exampleRegistry "[REQ_ID_nm \<mapsto> PInt 1]" PNone PNone
      PNone exampleRegistry]
    show ?thesis
      by blast
  qed
  have f1: "authenticate exampleCollaborators getVerkey (exampleRequest ''9s'') (PStr ''Did1'')
      (PStr ''9s'') exampleRegistry = (Inl InvalidSignature, exampleRegistry)"
    using authenticate_argument_override [of "PStr ''9s''" "exampleRequest ''9s''" "PStr ''Did1''"
      exampleCollaborators getVerkey exampleRegistry]
    by simp
  have f: "authenticate exampleCollaborators getVerkey (exampleRequest ''9s'') (PStr ''Did1'')
      (PInt 0) exampleRegistry = (Inl InvalidSignature, exampleRegistry)"
    using authenticate_argument_override [of "PInt 0" "exampleRequest ''9s''" "PStr ''Did1''"
      exampleCollaborators getVerkey exampleRegistry _ "PStr ''9s''"] f1
    by simp
  have g1: "authenticate exampleCollaborators getVerkey (exampleRequest ''9r'') (PStr ''Did1'')
      (PStr ''9r'') exampleRegistry = (Inr (PStr ''Did1''), exampleRegistry)"
    using authenticate_argument_override [of "PStr ''9r''" "exampleRequest ''9r''" "PStr ''Did1''"
      exampleCollaborators getVerkey exampleRegistry]
    by simp
  have g: "authenticate exampleCollaborators getVerkey (exampleRequest ''9r'') (PStr '''')
      (PStr ''9r'') exampleRegistry = (Inr (PStr ''Did1''), exampleRegistry)"
  proof -
    have "\<not> truthy (PStr '''') \<and>
        exampleRequest ''9r'' IDENTIFIER_nm = Some (PStr ''Did1'') \<and> truthy (PStr ''Did1'')"
      by simp
    with authenticate_argument_override [of "PStr ''9r''" "exampleRequest ''9r''" "PStr ''''"
      exampleCollaborators getVerkey exampleRegistry "exampleRequest ''9r''" PNone "PStr ''Did1''"
      PNone exampleRegistry]
    have "authenticate exampleCollaborators getVerkey (exampleRequest ''9r'') (PStr '''')
        (PStr ''9r'') exampleRegistry =
      authenticate exampleCollaborators getVerkey (exampleRequest ''9r'') (PStr ''Did1'')
        (PStr ''9r'') exampleRegistry"
      by blast
    from this g1 show ?thesis
      by (rule trans)
  qed
  have h: "resolveIdentifier (exampleRequest ''9r'') (PStr '''') = Inr (PStr ''Did1'')"
    using authenticate_argument_override [of "PStr ''9r''" "exampleRequest ''9r''" "PStr ''''"
      exampleCollaborators getVerkey exampleRegistry "exampleRequest ''9r''" PNone PNone
      "PStr ''Did1''" exampleRegistry] g
    by blast
  from a b c d e f g h show ?thesis
    by simp
qed

text \<open>
  C10. After any sequence of registrations on a new object, \<open>getVerkey\<close> raises
  \<open>UnknownIdentifier\<close> exactly for the identifiers that were never registered. For
  a registered identifier it returns the verkey of the latest registration,
  whatever that verkey is: the stored record has two keys, so it is never falsy,
  also when the verkey is \<open>None\<close> or the empty string.
\<close>

theorem getVerkey_unknown_iff_unregistered:
  "(fst (getVerkey identifier (addClients calls SimpleAuthNr_init)) =
      Inl (UnknownIdentifier identifier)) = (identifier \<notin> fst ` set calls) \<and>
   (identifier \<in> fst ` set calls \<longrightarrow>
      fst (getVerkey identifier (addClients calls SimpleAuthNr_init)) =
        Inr (fst (snd (last (filter (\<lambda>c. fst c = identifier) calls)))))"
proof (cases "filter (\<lambda>c. fst c = identifier) calls")
  case Nil
  then have "identifier \<notin> fst ` set calls"
    by (simp add: filter_registrations_empty)
  with Nil show ?thesis
    by (simp add: getVerkey_addClients)
next
  case (Cons c cs)
  then have "identifier \<in> fst ` set calls"
    by (metis filter_registrations_empty list.distinct(1))
  with Cons show ?thesis
    by (simp add: getVerkey_addClients)
qed

theorem getVerkey_unknown_iff_unregistered_witness:
  "fst (getVerkey (PStr ''A'')
     (addClients [(PStr ''A'', PStr ''3'', PNone), (PStr ''B'', PStr '''', PNone),
                  (PStr ''A'', PNone, PInt 1)] SimpleAuthNr_init)) = Inr PNone \<and>
   fst (getVerkey (PStr ''B'')
     (addClients [(PStr ''A'', PStr ''3'', PNone), (PStr ''B'', PStr '''', PNone),
                  (PStr ''A'', PNone, PInt 1)] SimpleAuthNr_init)) = Inr (PStr '''') \<and>
   fst (getVerkey (PStr ''C'')
     (addClients [(PStr ''A'', PStr ''3'', PNone), (PStr ''B'', PStr '''', PNone),
                  (PStr ''A'', PNone, PInt 1)] SimpleAuthNr_init)) = Inl (UnknownIdentifier (PStr ''C''))"
  using
    getVerkey_unknown_iff_unregistered [of "PStr ''A''"
      "[(PStr ''A'', PStr ''3'', PNone), (PStr ''B'', PStr '''', PNone), (PStr ''A'', PNone, PInt 1)]"]
    getVerkey_unknown_iff_unregistered [of "PStr ''B''"
      "[(PStr ''A'', PStr ''3'', PNone), (PStr ''B'', PStr '''', PNone), (PStr ''A'', PNone, PInt 1)]"]
    getVerkey_unknown_iff_unregistered [of "PStr ''C''"
      "[(PStr ''A'', PStr ''3'', PNone), (PStr ''B'', PStr '''', PNone), (PStr ''A'', PNone, PInt 1)]"]
  by simp

end
